theory Spec2Isabelle
  imports Complex_Main "HOL-Library.Log_Nat"
begin

section \<open>The tool-call handler of the Instagram MCP server\<close>

text \<open>
  The development embeds the request handler that \<^verbatim>\<open>setupToolHandlers\<close> registers for
  \<^verbatim>\<open>CallToolRequestSchema\<close>, together with the argument guard
  \<^verbatim>\<open>isValidFetchArgs\<close> and the progress callback the handler hands to the fetch
  service. The fetch service itself (\<^verbatim>\<open>InstagramService.fetchPosts\<close>) lives in another
  module; the handler only calls it, so it is a parameter of the model.
\<close>

subsection \<open>JavaScript numbers\<close>

text \<open>
  A number is an IEEE 754 double. The arguments of a call arrive as parsed JSON, and a
  JSON number parses to a finite double or, beyond the range (\<^verbatim>\<open>1e400\<close>), to an
  infinity; JSON text has no literal for NaN, and the handler's one arithmetic
  operation, adding an array length to a number, cannot produce it. So a number is a
  finite value, kept as the rational it denotes, or one of the two infinities. The two
  zeros are not told apart: both are falsy, and they are equal under \<^verbatim>\<open>===\<close>.
  (A finite value that comes out of \<^verbatim>\<open>JSON.parse\<close> is a double; the functions
  below are defined on every rational.)
\<close>

datatype number = Finite rat | PosInfinity | NegInfinity

text \<open>
  \<open>floor_log2 a\<close> is the binary exponent of a positive rational: the \<open>L\<close> with
  \<open>2 ^ L \<le> a < 2 ^ (L + 1)\<close>. From the bit lengths of numerator and denominator it is
  their difference or one less.
\<close>

definition floor_log2 :: "rat \<Rightarrow> int" where
  "floor_log2 a =
     (let (p, q) = quotient_of a; d = bitlen p - bitlen q
      in if 2 powi d \<le> a then d else d - 1)"

text \<open>Rounding to the nearest integer, a tie going to the even one.\<close>

definition round_half_even :: "rat \<Rightarrow> int" where
  "round_half_even a =
     (let f = \<lfloor>a\<rfloor>; r = a - of_int f
      in if r < 1 / 2 then f
         else if 1 / 2 < r then f + 1
         else if even f then f else f + 1)"

text \<open>
  The double nearest to a rational (round to nearest, ties to even): the significand has
  53 bits, so the last place of a value with binary exponent \<open>L\<close> is worth
  \<open>2 ^ (L - 52)\<close>, and never less than \<open>2 ^ (- 1074)\<close> (the subnormal range); a
  result of magnitude \<open>2 ^ 1024\<close> or more is an infinity.
\<close>

definition round_double :: "rat \<Rightarrow> number" where
  "round_double x =
     (if x = 0 then Finite 0
      else
        let e = max (- 1074) (floor_log2 \<bar>x\<bar> - 52);
            m = round_half_even (\<bar>x\<bar> / 2 powi e);
            y = of_int m * 2 powi e
        in if 2 ^ 1024 \<le> y then (if 0 < x then PosInfinity else NegInfinity)
           else Finite (if 0 < x then y else - y))"

text \<open>
  \<^verbatim>\<open>x + posts.length\<close>: the sum of a number and an array length (an integer below
  \<open>2 ^ 32\<close>, itself a double), rounded to a double.
\<close>

fun plus_length :: "number \<Rightarrow> nat \<Rightarrow> number" where
  "plus_length (Finite a) n = round_double (a + of_nat n)"
| "plus_length PosInfinity n = PosInfinity"
| "plus_length NegInfinity n = NegInfinity"

subsection \<open>JavaScript values\<close>

text \<open>
  A value is one of the JSON shapes, or \<^verbatim>\<open>undefined\<close> (what reading an absent property
  gives).
\<close>

datatype jsval =
    Undefined
  | Null
  | Bool bool
  | Num number
  | Str string
  | Arr "jsval list"
  | Obj "(string \<times> jsval) list"

text \<open>The \<^verbatim>\<open>typeof\<close> operator; \<^verbatim>\<open>typeof null\<close> is \<^verbatim>\<open>'object'\<close>, as for arrays.\<close>

fun typeof :: "jsval \<Rightarrow> string" where
  "typeof Undefined = ''undefined''"
| "typeof Null = ''object''"
| "typeof (Bool b) = ''boolean''"
| "typeof (Num n) = ''number''"
| "typeof (Str s) = ''string''"
| "typeof (Arr xs) = ''object''"
| "typeof (Obj kvs) = ''object''"

text \<open>
  Reading a property \<^verbatim>\<open>args.k\<close>. An object is the list of its own properties; an absent
  property reads as \<^verbatim>\<open>undefined\<close>. The handler reads only \<^verbatim>\<open>username\<close>,
  \<^verbatim>\<open>limit\<close> and \<^verbatim>\<open>startFrom\<close>, which no array and no primitive has, and it reads them
  only behind the guard's first line, which has excluded \<^verbatim>\<open>undefined\<close> and \<^verbatim>\<open>null\<close>
  (where a property read would throw).
\<close>

fun get :: "jsval \<Rightarrow> string \<Rightarrow> jsval" where
  "get (Obj kvs) k = (case map_of kvs k of None \<Rightarrow> Undefined | Some v \<Rightarrow> v)"
| "get _ k = Undefined"

text \<open>
  An array, as \<^verbatim>\<open>fetchPosts\<close> resolves to: its elements in order. The \<^verbatim>\<open>length\<close> of a
  JavaScript array is below \<open>2 ^ 32\<close>.
\<close>

typedef 'a array = "{xs :: 'a list. length xs < 2 ^ 32}"
  morphisms list_of Array
  by (rule exI[of _ "[]"]) simp

subsection \<open>The argument guard\<close>

text \<open>\<^verbatim>\<open>isValidFetchArgs\<close>, line by line: four early \<^verbatim>\<open>return false\<close>, then \<^verbatim>\<open>return true\<close>.\<close>

definition isValidFetchArgs :: "jsval \<Rightarrow> bool" where
  "isValidFetchArgs args =
     (if typeof args \<noteq> ''object'' \<or> args = Null then False
      else if typeof (get args ''username'') \<noteq> ''string'' then False
      else if get args ''limit'' \<noteq> Undefined \<and>
              typeof (get args ''limit'') \<noteq> ''number'' \<and>
              get args ''limit'' \<noteq> Str ''all'' then False
      else if get args ''startFrom'' \<noteq> Undefined \<and>
              typeof (get args ''startFrom'') \<noteq> ''number'' then False
      else True)"

subsection \<open>Progress notifications\<close>

text \<open>
  The callback receives \<^verbatim>\<open>string | IProgressUpdate\<close>. The declaration of
  \<^verbatim>\<open>IProgressUpdate\<close> is in another module; the callback reads its fields
  \<^verbatim>\<open>message\<close>, \<^verbatim>\<open>progress\<close>, \<^verbatim>\<open>total\<close> and the optional \<^verbatim>\<open>keepAlive\<close>. The two
  numbers are only copied, never computed with.
\<close>

record IProgressUpdate =
  message :: string
  progress :: rat
  total :: rat
  keepAlive :: "bool option"

datatype ProgressMessage = PlainMessage string | Update IProgressUpdate

text \<open>
  What \<^verbatim>\<open>server.notification\<close> is given: its \<^verbatim>\<open>method\<close> and its
  \<^verbatim>\<open>params\<close> object. A params
  object without a \<^verbatim>\<open>keepAlive\<close> key and one whose \<^verbatim>\<open>keepAlive\<close> is \<^verbatim>\<open>undefined\<close>
  are both \<open>None\<close>.
\<close>

record params =
  params_message :: string
  params_progress :: rat
  params_total :: rat
  params_keepAlive :: "bool option"

record notification =
  notification_method :: string
  params :: params

fun progress_callback :: "ProgressMessage \<Rightarrow> notification" where
  "progress_callback (PlainMessage m) =
     \<lparr>notification_method = ''progress'',
      params = \<lparr>params_message = m, params_progress = 0, params_total = 0,
                params_keepAlive = None\<rparr>\<rparr>"
| "progress_callback (Update u) =
     \<lparr>notification_method = ''progress'',
      params = \<lparr>params_message = message u, params_progress = progress u,
                params_total = total u, params_keepAlive = keepAlive u\<rparr>\<rparr>"

subsection \<open>The fetch service, as the handler sees it\<close>

text \<open>
  A value caught by the handler's \<^verbatim>\<open>catch\<close>. All the handler does with it is turn it
  into text, and that step can itself throw, so a caught value is given by what the step
  yields: for an \<^verbatim>\<open>Error\<close> instance, its \<^verbatim>\<open>message\<close> as the template literal
  renders it; for any other value, what \<^verbatim>\<open>String(error)\<close> returns; in both cases
  \<open>None\<close> when the conversion throws (an object with no \<^verbatim>\<open>toString\<close>, such as
  \<^verbatim>\<open>Object.create(null)\<close>, or a \<^verbatim>\<open>message\<close> that is a symbol).
\<close>

datatype thrown = ErrorInstance "string option" | NotAnError "string option"

text \<open>
  One run of \<^verbatim>\<open>fetchPosts\<close>: the progress messages it passed to the callback, in order,
  and how its promise settled: rejected with a thrown value, or fulfilled with the posts.
\<close>

record 'p fetch_run =
  emitted :: "ProgressMessage list"
  settled :: "thrown + 'p array"

type_synonym 'p fetchPosts = "jsval \<Rightarrow> jsval \<Rightarrow> jsval \<Rightarrow> 'p fetch_run"

subsection \<open>The handler\<close>

datatype ErrorCode = MethodNotFound | InvalidParams

text \<open>
  What can leave the handler as an exception: one of its two \<^verbatim>\<open>McpError\<close>s, or
  whatever the string conversion in its \<^verbatim>\<open>catch\<close> block threw (a \<^verbatim>\<open>TypeError\<close> for
  a value with no string conversion); nothing catches the latter.
\<close>

datatype fault = McpError ErrorCode string | ConversionFault

record currentBatch =
  start :: number
  end' :: number
  size' :: nat

record pagination =
  currentBatch :: currentBatch
  nextStartFrom :: number
  hasMore :: bool

text \<open>The two content items the handler builds: \<^verbatim>\<open>type: 'json'\<close> and \<^verbatim>\<open>type: 'text'\<close>.\<close>

datatype 'p content_item = Json "'p array" pagination | Text string

text \<open>The returned object; \<open>isError = None\<close> when the key is not set.\<close>

record 'p tool_result =
  content :: "'p content_item list"
  isError :: "bool option"

text \<open>\<^verbatim>\<open>args.startFrom || 0\<close> behind the guard, where \<^verbatim>\<open>args.startFrom\<close> is a number or
  \<^verbatim>\<open>undefined\<close>: both \<^verbatim>\<open>undefined\<close> and the number zero are falsy and give the right
  operand; every other number, the infinities too, is truthy.\<close>

fun startFrom_or_0 :: "jsval \<Rightarrow> number" where
  "startFrom_or_0 (Num n) = (if n = Finite 0 then Finite 0 else n)"
| "startFrom_or_0 _ = Finite 0"

text \<open>The text of the catch branch:
  \<^verbatim>\<open>`Instagram error: ${error instanceof Error ? error.message : String(error)}`\<close>,
  or \<open>None\<close> when evaluating it throws.\<close>

fun error_text :: "thrown \<Rightarrow> string option" where
  "error_text (ErrorInstance msg) =
     (case msg of None \<Rightarrow> None | Some m \<Rightarrow> Some (''Instagram error: '' @ m))"
| "error_text (NotAnError converted) =
     (case converted of None \<Rightarrow> None | Some s \<Rightarrow> Some (''Instagram error: '' @ s))"

text \<open>
  What one call of the handler does: the calls it made to \<^verbatim>\<open>fetchPosts\<close> (with the three
  arguments passed), the notifications it sent, and its outcome: an exception thrown out
  of the handler (\<open>Inl\<close>) or the returned result (\<open>Inr\<close>).
\<close>

record 'p handled =
  service_calls :: "(jsval \<times> jsval \<times> jsval) list"
  notifications :: "notification list"
  outcome :: "fault + 'p tool_result"

record request =
  name :: string
  arguments :: jsval

definition callTool :: "'p fetchPosts \<Rightarrow> request \<Rightarrow> 'p handled" where
  "callTool fetchPosts request =
     (if name request \<noteq> ''get_instagram_posts'' then
        \<lparr>service_calls = [], notifications = [],
         outcome = Inl (McpError MethodNotFound (''Unknown tool: '' @ name request))\<rparr>
      else
        let args = arguments request in
        if \<not> isValidFetchArgs args then
          \<lparr>service_calls = [], notifications = [],
           outcome = Inl (McpError InvalidParams ''Invalid fetch arguments'')\<rparr>
        else
          let run = fetchPosts (get args ''username'') (get args ''limit'')
                      (get args ''startFrom'') in
          \<lparr>service_calls =
             [(get args ''username'', get args ''limit'', get args ''startFrom'')],
           notifications = map progress_callback (emitted run),
           outcome =
             (case settled run of
                Inr posts \<Rightarrow>
                  Inr \<lparr>content =
                         [Json posts
                            \<lparr>currentBatch =
                               \<lparr>start = startFrom_or_0 (get args ''startFrom''),
                                end' = plus_length (startFrom_or_0 (get args ''startFrom''))
                                         (length (list_of posts)),
                                size' = length (list_of posts)\<rparr>,
                             nextStartFrom =
                               plus_length (startFrom_or_0 (get args ''startFrom''))
                                 (length (list_of posts)),
                             hasMore = (length (list_of posts) = 3)\<rparr>],
                       isError = None\<rparr>
              | Inl error \<Rightarrow>
                  (case error_text error of
                     Some t \<Rightarrow> Inr \<lparr>content = [Text t], isError = Some True\<rparr>
                   | None \<Rightarrow> Inl ConversionFault))\<rparr>)"

subsection \<open>Sample runs of the fetch service\<close>

text \<open>Concrete services (posts are numbered) on which the theorems below are exercised.\<close>

definition three_posts :: "nat fetchPosts" where
  "three_posts username limit startFrom =
     \<lparr>emitted = [PlainMessage ''Loading profile'',
                 Update \<lparr>message = ''Fetched batch'', progress = 3, total = 3,
                         keepAlive = Some True\<rparr>],
      settled = Inr (Array [1, 2, 3])\<rparr>"

definition two_posts :: "nat fetchPosts" where
  "two_posts username limit startFrom =
     \<lparr>emitted = [PlainMessage ''Loading profile''], settled = Inr (Array [1, 2])\<rparr>"


definition seven_posts :: "nat fetchPosts" where
  "seven_posts username limit startFrom =
     \<lparr>emitted = [], settled = Inr (Array [1, 2, 3, 4, 5, 6, 7])\<rparr>"

definition no_session :: "nat fetchPosts" where
  "no_session username limit startFrom =
     \<lparr>emitted = [PlainMessage ''Connecting to Chrome''],
      settled = Inl (ErrorInstance (Some ''No active Instagram session''))\<rparr>"

definition timed_out :: "nat fetchPosts" where
  "timed_out username limit startFrom =
     \<lparr>emitted = [], settled = Inl (NotAnError (Some ''timeout''))\<rparr>"

definition bare_object :: "nat fetchPosts" where
  "bare_object username limit startFrom = \<lparr>emitted = [], settled = Inl (NotAnError None)\<rparr>"

definition call :: "jsval \<Rightarrow> request" where
  "call args = \<lparr>name = ''get_instagram_posts'', arguments = args\<rparr>"

definition alice_2_from_5 :: jsval where
  "alice_2_from_5 =
     Obj [(''username'', Str ''alice''), (''limit'', Num (Finite 2)),
          (''startFrom'', Num (Finite 5))]"

definition alice_3 :: jsval where
  "alice_3 = Obj [(''username'', Str ''alice''), (''limit'', Num (Finite 3))]"

definition alice_5 :: jsval where
  "alice_5 = Obj [(''username'', Str ''alice''), (''limit'', Num (Finite 5))]"


definition bob_all :: jsval where
  "bob_all =
     Obj [(''username'', Str ''bob''), (''limit'', Str ''all''),
          (''startFrom'', Num (Finite 0))]"

definition alice_half :: jsval where
  "alice_half = Obj [(''username'', Str ''alice''), (''limit'', Num (Finite (5 / 2)))]"

definition limit_ten :: jsval where
  "limit_ten = Obj [(''username'', Str ''alice''), (''limit'', Str ''ten'')]"

definition startFrom_text :: jsval where
  "startFrom_text = Obj [(''username'', Str ''alice''), (''startFrom'', Str ''5'')]"

definition nameless :: jsval where
  "nameless = Obj [(''limit'', Num (Finite 2))]"

definition anonymous :: jsval where
  "anonymous = Obj [(''username'', Str '''')]"

section \<open>Facts about double rounding\<close>

text \<open>
  The exponent function is what its name says (\<open>floor_log2_bounds\<close>), and an integer of
  magnitude up to \<open>2 ^ 53\<close> is a double, so adding an array length is exact as long as
  the sum stays within that range (\<open>plus_length_exact\<close>). Beyond it the sum is rounded
  (\<open>plus_length_rounds\<close>).
\<close>

lemma round_half_even_of_int: "round_half_even (of_int j) = j"
  by (simp add: round_half_even_def)

lemma floor_log2_of_int: "0 < k \<Longrightarrow> floor_log2 (of_int k) = bitlen k - 1"
proof -
  assume k: "0 < k"
  have q: "quotient_of (of_int k) = (k, 1)"
    by (metis Rat.of_int_def quotient_of_int)
  have b1: "bitlen 1 = 1" by (simp add: bitlen_alt_def)
  from k have ge: "1 \<le> bitlen k" by (simp add: bitlen_alt_def)
  from bitlen_bounds[OF k] have "(2::int) ^ nat (bitlen k - 1) \<le> k" by simp
  then have "(of_int ((2::int) ^ nat (bitlen k - 1)) :: rat) \<le> of_int k"
    by (simp only: of_int_le_iff)
  then have "(2::rat) ^ nat (bitlen k - 1) \<le> of_int k" by simp
  moreover from ge have "(2::rat) powi (bitlen k - 1) = 2 ^ nat (bitlen k - 1)"
    by (simp add: power_int_def)
  ultimately show ?thesis
    by (simp add: floor_log2_def q b1)
qed


lemma scaled_integer:
  fixes k :: int
  assumes "0 < k" "k \<le> 2 ^ 53" "e = bitlen k - 1 - 52"
  shows "\<exists>i. (of_int k :: rat) / 2 powi e = of_int i"
proof (cases "e \<le> 0")
  case True
  then have "(2::rat) powi e = 1 / 2 ^ nat (- e)"
    by (simp add: power_int_def field_simps)
  then have "(of_int k :: rat) / 2 powi e = of_int (k * 2 ^ nat (- e))"
    by simp
  then show ?thesis ..
next
  case False
  with assms(3) have "54 \<le> bitlen k" by simp
  then have "2 ^ 53 \<le> k" by (simp add: bitlen_ge_iff_power)
  with assms(2) have k: "k = 2 ^ 53" by simp
  then have "bitlen k = 54"
    using bitlen_pow2[of 1 53] by (simp add: bitlen_alt_def)
  with assms(3) have "e = 1" by simp
  with k have "(of_int k :: rat) / 2 powi e = of_int (2 ^ 52)" by simp
  then show ?thesis ..
qed

lemma round_double_of_int:
  assumes "\<bar>j\<bar> \<le> 2 ^ 53"
  shows "round_double (of_int j) = Finite (of_int j)"
proof (cases "j = 0")
  case True
  then show ?thesis by (simp add: round_double_def)
next
  case False
  define k where "k = \<bar>j\<bar>"
  define e where "e = bitlen k - 1 - 52"
  from False have k: "0 < k" by (simp add: k_def)
  from assms have k53: "k \<le> 2 ^ 53" by (simp add: k_def)
  have abs: "\<bar>of_int j :: rat\<bar> = of_int k" by (simp add: k_def)
  from k have "1 \<le> bitlen k" by (simp add: bitlen_alt_def)
  then have e: "max (- 1074) (floor_log2 (of_int k) - 52) = e"
    by (simp add: floor_log2_of_int[OF k] e_def)
  from scaled_integer[OF k k53 e_def] obtain i
    where i: "(of_int k :: rat) / 2 powi e = of_int i" ..
  have "(2::rat) powi e \<noteq> 0" by simp
  with i have y: "(of_int i :: rat) * 2 powi e = of_int k"
    by (metis nonzero_divide_eq_eq)
  from k53 have "(of_int k :: rat) \<le> of_int (2 ^ 53)" by (simp only: of_int_le_iff)
  then have "(of_int k :: rat) \<le> 2 ^ 53" by simp
  also have "(2::rat) ^ 53 < 2 ^ 1024" by simp
  finally have small: "\<not> (2::rat) ^ 1024 \<le> of_int k" by simp
  from False have nz: "(of_int j :: rat) \<noteq> 0" by simp
  have pos: "(0 < (of_int j :: rat)) = (0 < j)" by simp
  have "round_double (of_int j) =
      (if (2::rat) ^ 1024 \<le> of_int k then (if 0 < j then PosInfinity else NegInfinity)
       else Finite (if 0 < j then of_int k else - of_int k))"
    by (simp only: round_double_def nz if_False Let_def abs e i round_half_even_of_int y pos)
  with small have "round_double (of_int j) = Finite (if 0 < j then of_int k else - of_int k)"
    by (simp only: if_False)
  also have "(if 0 < j then of_int k else - of_int k) = (of_int j :: rat)"
    by (simp add: k_def)
  finally show ?thesis .
qed

lemma plus_length_exact:
  assumes "\<bar>k + int n\<bar> \<le> 2 ^ 53"
  shows "plus_length (Finite (of_int k)) n = Finite (of_int k + of_nat n)"
proof -
  have eq: "(of_int k :: rat) + of_nat n = of_int (k + int n)" by simp
  have "plus_length (Finite (of_int k)) n = round_double (of_int (k + int n))"
    by (simp only: plus_length.simps eq)
  also have "\<dots> = Finite (of_int (k + int n))"
    using assms by (rule round_double_of_int)
  finally show ?thesis by (simp only: eq)
qed

lemma plus_length_0:
  assumes "n < 2 ^ 32"
  shows "plus_length (Finite 0) n = Finite (of_nat n)"
proof -
  from assms have "int n < 2 ^ 32" by (metis of_nat_less_numeral_power_cancel_iff)
  also have "(2::int) ^ 32 \<le> 2 ^ 53" by (rule power_increasing) simp_all
  finally have "\<bar>0 + int n\<bar> \<le> 2 ^ 53" by simp
  from plus_length_exact[OF this] show ?thesis by simp
qed


lemma bitlen_rat_bounds:
  assumes "0 < p"
  shows "(2::rat) powi (bitlen p - 1) \<le> of_int p" and "of_int p < (2::rat) powi bitlen p"
proof -
  from assms have ge: "1 \<le> bitlen p" by (simp add: bitlen_alt_def)
  from bitlen_bounds[OF assms]
  have "(of_int (2 ^ nat (bitlen p - 1)) :: rat) \<le> of_int p"
    and "(of_int p :: rat) < of_int (2 ^ nat (bitlen p))"
    by (simp_all only: of_int_le_iff of_int_less_iff)
  moreover from ge have "(2::rat) powi (bitlen p - 1) = of_int (2 ^ nat (bitlen p - 1))"
    and "(2::rat) powi bitlen p = of_int (2 ^ nat (bitlen p))"
    by (simp_all add: power_int_def)
  ultimately show "(2::rat) powi (bitlen p - 1) \<le> of_int p"
    and "of_int p < (2::rat) powi bitlen p"
    by simp_all
qed

lemma floor_log2_bounds:
  assumes "0 < a"
  shows "2 powi floor_log2 a \<le> a \<and> a < 2 powi (floor_log2 a + 1)"
proof -
  obtain p q where pq: "quotient_of a = (p, q)" by (cases "quotient_of a")
  then have q: "0 < q" by (rule quotient_of_denom_pos)
  from pq have a: "a = of_int p / of_int q" by (rule quotient_of_div)
  with assms q have p: "0 < p" by (simp add: zero_less_divide_iff)
  define d where "d = bitlen p - bitlen q"
  note P = bitlen_rat_bounds[OF p] and Q = bitlen_rat_bounds[OF q]
  from p q have p0: "(0::rat) < of_int p" and q0: "(0::rat) < of_int q" by simp_all
  have "(of_int p :: rat) / of_int q < 2 powi bitlen p / 2 powi (bitlen q - 1)"
    using P(2) Q(1) p0 by (intro frac_less) simp_all
  also have "\<dots> = 2 powi (d + 1)"
    by (simp add: d_def power_int_diff[symmetric] algebra_simps)
  finally have upper: "a < 2 powi (d + 1)" by (simp only: a)
  have "(2::rat) powi (bitlen p - 1) / 2 powi bitlen q \<le> of_int p / of_int q"
    using P(1) Q(2) p0 q0 by (intro frac_le) simp_all
  moreover have "(2::rat) powi (bitlen p - 1) / 2 powi bitlen q = 2 powi (d - 1)"
    by (simp add: d_def power_int_diff[symmetric] algebra_simps)
  ultimately have lower: "2 powi (d - 1) \<le> a" by (simp only: a)
  have fl: "floor_log2 a = (if 2 powi d \<le> a then d else d - 1)"
    by (simp add: floor_log2_def pq d_def)
  show ?thesis
  proof (cases "2 powi d \<le> a")
    case True
    with upper fl show ?thesis by simp
  next
    case False
    with lower fl show ?thesis by simp
  qed
qed


lemma length_list_of: "length (list_of posts) < 2 ^ 32"
  using list_of[of posts] by simp

lemma list_of_Array: "length xs < 2 ^ 32 \<Longrightarrow> list_of (Array xs) = xs"
  by (simp add: Array_inverse)

lemma plus_length_from_0:
  "plus_length (Finite 0) (length (list_of posts)) = Finite (of_nat (length (list_of posts)))"
  using length_list_of by (rule plus_length_0)

section \<open>Facts about the guard and the handler\<close>

lemma typeof_string_iff: "typeof v = ''string'' \<longleftrightarrow> (\<exists>s. v = Str s)"
  by (cases v) simp_all

lemma typeof_number_iff: "typeof v = ''number'' \<longleftrightarrow> (\<exists>n. v = Num n)"
  by (cases v) simp_all

lemma isValidFetchArgs_iff:
  "isValidFetchArgs args \<longleftrightarrow>
     (\<exists>kvs. args = Obj kvs) \<and>
     (\<exists>u. get args ''username'' = Str u) \<and>
     (get args ''limit'' = Undefined \<or> (\<exists>n. get args ''limit'' = Num n) \<or>
        get args ''limit'' = Str ''all'') \<and>
     (get args ''startFrom'' = Undefined \<or> (\<exists>s. get args ''startFrom'' = Num s))"
proof (cases args)
  case (Obj kvs)
  then show ?thesis
    unfolding isValidFetchArgs_def typeof_string_iff typeof_number_iff
    by auto
qed (simp_all add: isValidFetchArgs_def)

lemma callTool_unknown:
  "name request \<noteq> ''get_instagram_posts'' \<Longrightarrow>
   callTool fetchPosts request =
     \<lparr>service_calls = [], notifications = [],
      outcome = Inl (McpError MethodNotFound (''Unknown tool: '' @ name request))\<rparr>"
  by (simp add: callTool_def)

lemma callTool_invalid:
  "name request = ''get_instagram_posts'' \<Longrightarrow> \<not> isValidFetchArgs (arguments request) \<Longrightarrow>
   callTool fetchPosts request =
     \<lparr>service_calls = [], notifications = [],
      outcome = Inl (McpError InvalidParams ''Invalid fetch arguments'')\<rparr>"
  by (simp add: callTool_def)

lemma callTool_calls:
  "name request = ''get_instagram_posts'' \<Longrightarrow> isValidFetchArgs (arguments request) \<Longrightarrow>
   service_calls (callTool fetchPosts request) =
     [(get (arguments request) ''username'', get (arguments request) ''limit'',
       get (arguments request) ''startFrom'')]"
  by (simp add: callTool_def Let_def)

lemma callTool_notifications:
  "name request = ''get_instagram_posts'' \<Longrightarrow> isValidFetchArgs (arguments request) \<Longrightarrow>
   notifications (callTool fetchPosts request) =
     map progress_callback
       (emitted (fetchPosts (get (arguments request) ''username'')
          (get (arguments request) ''limit'') (get (arguments request) ''startFrom'')))"
  by (simp add: callTool_def Let_def)

lemma callTool_fulfilled:
  "name request = ''get_instagram_posts'' \<Longrightarrow> isValidFetchArgs (arguments request) \<Longrightarrow>
   settled (fetchPosts (get (arguments request) ''username'')
      (get (arguments request) ''limit'') (get (arguments request) ''startFrom'')) = Inr posts \<Longrightarrow>
   outcome (callTool fetchPosts request) =
     Inr \<lparr>content =
            [Json posts
               \<lparr>currentBatch =
                  \<lparr>start = startFrom_or_0 (get (arguments request) ''startFrom''),
                   end' = plus_length (startFrom_or_0 (get (arguments request) ''startFrom''))
                            (length (list_of posts)),
                   size' = length (list_of posts)\<rparr>,
                nextStartFrom =
                  plus_length (startFrom_or_0 (get (arguments request) ''startFrom''))
                    (length (list_of posts)),
                hasMore = (length (list_of posts) = 3)\<rparr>],
          isError = None\<rparr>"
  by (simp add: callTool_def Let_def)

lemma callTool_rejected:
  "name request = ''get_instagram_posts'' \<Longrightarrow> isValidFetchArgs (arguments request) \<Longrightarrow>
   settled (fetchPosts (get (arguments request) ''username'')
      (get (arguments request) ''limit'') (get (arguments request) ''startFrom'')) = Inl error \<Longrightarrow>
   outcome (callTool fetchPosts request) =
     (case error_text error of
        Some t \<Rightarrow> Inr \<lparr>content = [Text t], isError = Some True\<rparr>
      | None \<Rightarrow> Inl ConversionFault)"
  by (simp add: callTool_def Let_def)

text \<open>A result that carries posts comes from the success branch.\<close>

lemma callTool_posts_returned:
  assumes "outcome (callTool fetchPosts request) = Inr result"
    and "content result = [Json posts pg]"
  shows "name request = ''get_instagram_posts'' \<and> isValidFetchArgs (arguments request) \<and>
    settled (fetchPosts (get (arguments request) ''username'')
      (get (arguments request) ''limit'') (get (arguments request) ''startFrom'')) = Inr posts \<and>
    pg = \<lparr>currentBatch =
                  \<lparr>start = startFrom_or_0 (get (arguments request) ''startFrom''),
                   end' = plus_length (startFrom_or_0 (get (arguments request) ''startFrom''))
                            (length (list_of posts)),
                   size' = length (list_of posts)\<rparr>,
                nextStartFrom =
                  plus_length (startFrom_or_0 (get (arguments request) ''startFrom''))
                    (length (list_of posts)),
                hasMore = (length (list_of posts) = 3)\<rparr>"
  using assms
  by (auto simp add: callTool_def Let_def split: if_splits sum.splits option.splits)

text \<open>
  Where the conversion in the \<^verbatim>\<open>catch\<close> block throws, the handler does not return: a
  service that rejects with a value that has no string conversion makes the call fail
  with that conversion's exception.
\<close>

lemma callTool_conversion_fault:
  "outcome (callTool bare_object (call alice_3)) = Inl ConversionFault"
  by (simp add: callTool_def call_def Let_def bare_object_def isValidFetchArgs_def alice_3_def)


text \<open>The sample arguments and the guard.\<close>

lemma isValidFetchArgs_samples:
  "isValidFetchArgs alice_2_from_5" "isValidFetchArgs alice_3" "isValidFetchArgs alice_5"
  "isValidFetchArgs bob_all" "\<not> isValidFetchArgs nameless" "isValidFetchArgs anonymous"
  by (simp_all add: isValidFetchArgs_def alice_2_from_5_def alice_3_def alice_5_def
      bob_all_def nameless_def anonymous_def)

lemma call_simps: "name (call args) = ''get_instagram_posts''" "arguments (call args) = args"
  by (simp_all add: call_def)

text \<open>What the handler returns on the sample runs.\<close>

lemma sample_lengths:
  "length (list_of (Array [1::nat, 2, 3])) = 3"
  "length (list_of (Array [1::nat, 2])) = 2"
  "length (list_of (Array [1::nat, 2, 3, 4, 5, 6, 7])) = 7"
  by (simp_all add: list_of_Array)

lemma sample_sums:
  "plus_length (Finite 0) 3 = Finite 3" "plus_length (Finite 0) 2 = Finite 2"
  "plus_length (Finite 0) 7 = Finite 7" "plus_length (Finite 5) 2 = Finite 7"
  using plus_length_exact[of 0 3] plus_length_exact[of 0 2] plus_length_exact[of 0 7]
    plus_length_exact[of 5 2]
  by simp_all

lemma sample_outcomes:
  "outcome (callTool three_posts (call alice_3)) =
     Inr \<lparr>content = [Json (Array [1, 2, 3])
            \<lparr>currentBatch = \<lparr>start = Finite 0, end' = Finite 3, size' = 3\<rparr>,
             nextStartFrom = Finite 3, hasMore = True\<rparr>], isError = None\<rparr>"
  "outcome (callTool two_posts (call alice_2_from_5)) =
     Inr \<lparr>content = [Json (Array [1, 2])
            \<lparr>currentBatch = \<lparr>start = Finite 5, end' = Finite 7, size' = 2\<rparr>,
             nextStartFrom = Finite 7, hasMore = False\<rparr>], isError = None\<rparr>"
  "outcome (callTool two_posts (call alice_5)) =
     Inr \<lparr>content = [Json (Array [1, 2])
            \<lparr>currentBatch = \<lparr>start = Finite 0, end' = Finite 2, size' = 2\<rparr>,
             nextStartFrom = Finite 2, hasMore = False\<rparr>], isError = None\<rparr>"
  "outcome (callTool seven_posts (call bob_all)) =
     Inr \<lparr>content = [Json (Array [1, 2, 3, 4, 5, 6, 7])
            \<lparr>currentBatch = \<lparr>start = Finite 0, end' = Finite 7, size' = 7\<rparr>,
             nextStartFrom = Finite 7, hasMore = False\<rparr>], isError = None\<rparr>"
  "outcome (callTool three_posts (call bob_all)) =
     Inr \<lparr>content = [Json (Array [1, 2, 3])
            \<lparr>currentBatch = \<lparr>start = Finite 0, end' = Finite 3, size' = 3\<rparr>,
             nextStartFrom = Finite 3, hasMore = True\<rparr>], isError = None\<rparr>"
proof -
  have s: "startFrom_or_0 (get alice_3 ''startFrom'') = Finite 0"
    "startFrom_or_0 (get alice_2_from_5 ''startFrom'') = Finite 5"
    "startFrom_or_0 (get alice_5 ''startFrom'') = Finite 0"
    "startFrom_or_0 (get bob_all ''startFrom'') = Finite 0"
    by (simp_all add: alice_3_def alice_2_from_5_def alice_5_def bob_all_def)
  have r: "settled (three_posts u l f) = Inr (Array [1, 2, 3])"
    "settled (two_posts u l f) = Inr (Array [1, 2])"
    "settled (seven_posts u l f) = Inr (Array [1, 2, 3, 4, 5, 6, 7])" for u l f
    by (simp_all add: three_posts_def two_posts_def seven_posts_def)
  have v: "isValidFetchArgs (arguments (call alice_2_from_5))"
    "isValidFetchArgs (arguments (call alice_3))"
    "isValidFetchArgs (arguments (call alice_5))"
    "isValidFetchArgs (arguments (call bob_all))"
    by (simp_all add: call_simps isValidFetchArgs_samples)
  from callTool_fulfilled[where fetchPosts = three_posts, OF call_simps(1) v(2) r(1)]
  show "outcome (callTool three_posts (call alice_3)) =
     Inr \<lparr>content = [Json (Array [1, 2, 3])
            \<lparr>currentBatch = \<lparr>start = Finite 0, end' = Finite 3, size' = 3\<rparr>,
             nextStartFrom = Finite 3, hasMore = True\<rparr>], isError = None\<rparr>"
    by (simp only: call_simps s sample_lengths sample_sums) simp
  from callTool_fulfilled[where fetchPosts = two_posts, OF call_simps(1) v(1) r(2)]
  show "outcome (callTool two_posts (call alice_2_from_5)) =
     Inr \<lparr>content = [Json (Array [1, 2])
            \<lparr>currentBatch = \<lparr>start = Finite 5, end' = Finite 7, size' = 2\<rparr>,
             nextStartFrom = Finite 7, hasMore = False\<rparr>], isError = None\<rparr>"
    by (simp only: call_simps s sample_lengths sample_sums) simp
  from callTool_fulfilled[where fetchPosts = two_posts, OF call_simps(1) v(3) r(2)]
  show "outcome (callTool two_posts (call alice_5)) =
     Inr \<lparr>content = [Json (Array [1, 2])
            \<lparr>currentBatch = \<lparr>start = Finite 0, end' = Finite 2, size' = 2\<rparr>,
             nextStartFrom = Finite 2, hasMore = False\<rparr>], isError = None\<rparr>"
    by (simp only: call_simps s sample_lengths sample_sums) simp
  from callTool_fulfilled[where fetchPosts = seven_posts, OF call_simps(1) v(4) r(3)]
  show "outcome (callTool seven_posts (call bob_all)) =
     Inr \<lparr>content = [Json (Array [1, 2, 3, 4, 5, 6, 7])
            \<lparr>currentBatch = \<lparr>start = Finite 0, end' = Finite 7, size' = 7\<rparr>,
             nextStartFrom = Finite 7, hasMore = False\<rparr>], isError = None\<rparr>"
    by (simp only: call_simps s sample_lengths sample_sums) simp
  from callTool_fulfilled[where fetchPosts = three_posts, OF call_simps(1) v(4) r(1)]
  show "outcome (callTool three_posts (call bob_all)) =
     Inr \<lparr>content = [Json (Array [1, 2, 3])
            \<lparr>currentBatch = \<lparr>start = Finite 0, end' = Finite 3, size' = 3\<rparr>,
             nextStartFrom = Finite 3, hasMore = True\<rparr>], isError = None\<rparr>"
    by (simp only: call_simps s sample_lengths sample_sums) simp
qed

section \<open>Properties\<close>

text \<open>
  C1. A successful call of \<^verbatim>\<open>get_instagram_posts\<close> with a numeric limit returns
  \<open>hasMore = True\<close> exactly when it returns three posts.
\<close>

theorem hasMore_bounded:
  assumes "get (arguments request) ''limit'' = Num n"
    and "outcome (callTool fetchPosts request) = Inr result"
    and "content result = [Json posts pg]"
  shows "hasMore pg \<longleftrightarrow> length (list_of posts) = 3"
proof -
  from callTool_posts_returned[OF assms(2,3)]
  have "hasMore pg = (length (list_of posts) = 3)" by (elim conjE) simp
  then show ?thesis by simp
qed

theorem hasMore_bounded_witness:
  "get (arguments (call alice_3)) ''limit'' = Num (Finite 3) \<and>
   outcome (callTool three_posts (call alice_3)) =
     Inr \<lparr>content = [Json (Array [1, 2, 3])
            \<lparr>currentBatch = \<lparr>start = Finite 0, end' = Finite 3, size' = 3\<rparr>,
             nextStartFrom = Finite 3, hasMore = True\<rparr>], isError = None\<rparr> \<and>
   length (list_of (Array [1::nat, 2, 3])) = 3 \<and>
   get (arguments (call alice_2_from_5)) ''limit'' = Num (Finite 2) \<and>
   outcome (callTool two_posts (call alice_2_from_5)) =
     Inr \<lparr>content = [Json (Array [1, 2])
            \<lparr>currentBatch = \<lparr>start = Finite 5, end' = Finite 7, size' = 2\<rparr>,
             nextStartFrom = Finite 7, hasMore = False\<rparr>], isError = None\<rparr> \<and>
   length (list_of (Array [1::nat, 2])) \<noteq> 3"
proof -
  have l3: "get (arguments (call alice_3)) ''limit'' = Num (Finite 3)"
    by (simp add: call_simps alice_3_def)
  have l2: "get (arguments (call alice_2_from_5)) ''limit'' = Num (Finite 2)"
    by (simp add: call_simps alice_2_from_5_def)
  have c: "content \<lparr>content = xs, isError = e\<rparr> = xs" for xs :: "nat content_item list" and e
    by simp
  from hasMore_bounded[OF l3 sample_outcomes(1) c] hasMore_bounded[OF l2 sample_outcomes(2) c]
  have "length (list_of (Array [1::nat, 2, 3])) = 3"
    and "length (list_of (Array [1::nat, 2])) \<noteq> 3"
    by simp_all
  with l3 l2 sample_outcomes(1,2) show ?thesis by simp
qed



text \<open>
  C3, as the handler has it. The guard looks at the type of \<^verbatim>\<open>limit\<close>, never at its
  value: a call whose \<^verbatim>\<open>limit\<close> is any number, with a string \<^verbatim>\<open>username\<close> and an
  absent or numeric \<^verbatim>\<open>startFrom\<close>, passes the guard, the fetch service is called
  once with that limit unchanged, and the call does not fail with \<^verbatim>\<open>InvalidParams\<close>.
\<close>

theorem numeric_limit_accepted:
  assumes "name request = ''get_instagram_posts''"
    and "get (arguments request) ''username'' = Str u"
    and "get (arguments request) ''limit'' = Num n"
    and "get (arguments request) ''startFrom'' = Undefined \<or>
         get (arguments request) ''startFrom'' = Num s"
  shows "isValidFetchArgs (arguments request) \<and>
         service_calls (callTool fetchPosts request) =
           [(Str u, Num n, get (arguments request) ''startFrom'')] \<and>
         (\<forall>msg. outcome (callTool fetchPosts request) \<noteq> Inl (McpError InvalidParams msg))"
proof -
  from assms(2) obtain kvs where "arguments request = Obj kvs"
    by (cases "arguments request") simp_all
  with assms(2-4) have valid: "isValidFetchArgs (arguments request)"
    unfolding isValidFetchArgs_iff by auto
  from callTool_calls[OF assms(1) valid, of fetchPosts] assms(2,3)
  have calls: "service_calls (callTool fetchPosts request) =
      [(Str u, Num n, get (arguments request) ''startFrom'')]"
    by simp
  from assms(1) valid
  have "outcome (callTool fetchPosts request) \<noteq> Inl (McpError InvalidParams msg)" for msg
    by (simp add: callTool_def Let_def split: sum.split option.split)
  with valid calls show ?thesis by simp
qed

text \<open>C3 as stated fails: a limit of 5 is not rejected, and the service is called with it.\<close>

theorem limit_out_of_range_counterexample:
  "get (arguments (call alice_5)) ''limit'' = Num (Finite 5) \<and>
   service_calls (callTool two_posts (call alice_5)) =
     [(Str ''alice'', Num (Finite 5), Undefined)] \<and>
   outcome (callTool two_posts (call alice_5)) =
     Inr \<lparr>content = [Json (Array [1, 2])
            \<lparr>currentBatch = \<lparr>start = Finite 0, end' = Finite 2, size' = 2\<rparr>,
             nextStartFrom = Finite 2, hasMore = False\<rparr>], isError = None\<rparr>"
proof -
  have "get (arguments (call alice_5)) ''limit'' = Num (Finite 5)"
    by (simp add: call_simps alice_5_def)
  moreover have "service_calls (callTool two_posts (call alice_5)) =
      [(Str ''alice'', Num (Finite 5), Undefined)]"
    by (simp add: callTool_calls call_simps isValidFetchArgs_samples) (simp add: alice_5_def)
  ultimately show ?thesis using sample_outcomes(3) by simp
qed

theorem numeric_limit_accepted_witness:
  "name (call alice_half) = ''get_instagram_posts'' \<and>
   get (arguments (call alice_half)) ''limit'' = Num (Finite (5 / 2)) \<and>
   isValidFetchArgs (arguments (call alice_half)) \<and>
   service_calls (callTool two_posts (call alice_half)) =
     [(Str ''alice'', Num (Finite (5 / 2)), Undefined)]"
proof -
  have a: "arguments (call alice_half) =
      Obj [(''username'', Str ''alice''), (''limit'', Num (Finite (5 / 2)))]"
    by (simp add: call_simps alice_half_def)
  have u: "get (arguments (call alice_half)) ''username'' = Str ''alice''"
    and l: "get (arguments (call alice_half)) ''limit'' = Num (Finite (5 / 2))"
    and s: "get (arguments (call alice_half)) ''startFrom'' = Undefined"
    by (simp_all add: a)
  from numeric_limit_accepted[OF call_simps(1) u l disjI1[OF s], of two_posts] l s
  show ?thesis by (simp add: call_simps(1))
qed

text \<open>
  C4. A call of \<^verbatim>\<open>get_instagram_posts\<close> whose arguments are wrongly typed
  (\<^verbatim>\<open>username\<close> missing or not a string, \<^verbatim>\<open>limit\<close> present but neither a number nor
  \<^verbatim>\<open>"all"\<close>, or \<^verbatim>\<open>startFrom\<close> present but not a number) fails with
  \<^verbatim>\<open>InvalidParams\<close>; the fetch service is not called and nothing is notified.
\<close>

theorem wrongly_typed_rejected:
  assumes "name request = ''get_instagram_posts''"
    and "typeof (get (arguments request) ''username'') \<noteq> ''string'' \<or>
         (get (arguments request) ''limit'' \<noteq> Undefined \<and>
          typeof (get (arguments request) ''limit'') \<noteq> ''number'' \<and>
          get (arguments request) ''limit'' \<noteq> Str ''all'') \<or>
         (get (arguments request) ''startFrom'' \<noteq> Undefined \<and>
          typeof (get (arguments request) ''startFrom'') \<noteq> ''number'')"
  shows "callTool fetchPosts request =
           \<lparr>service_calls = [], notifications = [],
            outcome = Inl (McpError InvalidParams ''Invalid fetch arguments'')\<rparr>"
proof -
  from assms(2) have "\<not> isValidFetchArgs (arguments request)"
    unfolding isValidFetchArgs_def by presburger
  with assms(1) show ?thesis by (rule callTool_invalid)
qed

theorem wrongly_typed_rejected_witness:
  "typeof (get (arguments (call nameless)) ''username'') \<noteq> ''string'' \<and>
   callTool three_posts (call nameless) =
     \<lparr>service_calls = [], notifications = [],
      outcome = Inl (McpError InvalidParams ''Invalid fetch arguments'')\<rparr> \<and>
   get (arguments (call limit_ten)) ''limit'' = Str ''ten'' \<and>
   callTool three_posts (call limit_ten) =
     \<lparr>service_calls = [], notifications = [],
      outcome = Inl (McpError InvalidParams ''Invalid fetch arguments'')\<rparr> \<and>
   get (arguments (call startFrom_text)) ''startFrom'' = Str ''5'' \<and>
   callTool three_posts (call startFrom_text) =
     \<lparr>service_calls = [], notifications = [],
      outcome = Inl (McpError InvalidParams ''Invalid fetch arguments'')\<rparr>"
proof -
  have u: "typeof (get (arguments (call nameless)) ''username'') \<noteq> ''string''"
    by (simp add: call_simps nameless_def)
  have l: "get (arguments (call limit_ten)) ''limit'' = Str ''ten''"
    by (simp add: call_simps limit_ten_def)
  have s: "get (arguments (call startFrom_text)) ''startFrom'' = Str ''5''"
    by (simp add: call_simps startFrom_text_def)
  have l': "get (arguments (call limit_ten)) ''limit'' \<noteq> Undefined \<and>
          typeof (get (arguments (call limit_ten)) ''limit'') \<noteq> ''number'' \<and>
          get (arguments (call limit_ten)) ''limit'' \<noteq> Str ''all''"
    by (simp add: l)
  have s': "get (arguments (call startFrom_text)) ''startFrom'' \<noteq> Undefined \<and>
          typeof (get (arguments (call startFrom_text)) ''startFrom'') \<noteq> ''number''"
    by (simp add: s)
  from wrongly_typed_rejected[OF call_simps(1) disjI1[OF u], of three_posts]
    wrongly_typed_rejected[OF call_simps(1) disjI2[OF disjI1[OF l']], of three_posts]
    wrongly_typed_rejected[OF call_simps(1) disjI2[OF disjI2[OF s']], of three_posts]
    u l s
  show ?thesis by simp
qed

text \<open>
  C5. When the fetch service fails with a failure that has a message (an \<^verbatim>\<open>Error\<close>
  whose \<^verbatim>\<open>message\<close> renders as text, or another value that \<^verbatim>\<open>String\<close> converts),
  the handler returns (it does not throw) a result flagged as an error whose text is
  \<^verbatim>\<open>"Instagram error: "\<close> followed by that message.
\<close>

theorem service_failure_soft_error:
  assumes "name request = ''get_instagram_posts''"
    and "isValidFetchArgs (arguments request)"
    and "settled (fetchPosts (get (arguments request) ''username'')
           (get (arguments request) ''limit'') (get (arguments request) ''startFrom'')) =
         Inl error"
    and "error = ErrorInstance (Some m) \<or> error = NotAnError (Some m)"
  shows "outcome (callTool fetchPosts request) =
           Inr \<lparr>content = [Text (''Instagram error: '' @ m)], isError = Some True\<rparr>"
proof -
  from assms(4) have "error_text error = Some (''Instagram error: '' @ m)"
    by auto
  with callTool_rejected[where fetchPosts = fetchPosts, OF assms(1-3)] show ?thesis
    by simp
qed

theorem service_failure_soft_error_witness:
  "name (call alice_3) = ''get_instagram_posts'' \<and>
   isValidFetchArgs (arguments (call alice_3)) \<and>
   settled (no_session (Str ''alice'') (Num (Finite 3)) Undefined) =
     Inl (ErrorInstance (Some ''No active Instagram session'')) \<and>
   outcome (callTool no_session (call alice_3)) =
     Inr \<lparr>content = [Text ''Instagram error: No active Instagram session''],
          isError = Some True\<rparr> \<and>
   settled (timed_out (Str ''alice'') (Num (Finite 3)) Undefined) =
     Inl (NotAnError (Some ''timeout'')) \<and>
   outcome (callTool timed_out (call alice_3)) =
     Inr \<lparr>content = [Text ''Instagram error: timeout''], isError = Some True\<rparr>"
proof -
  have v: "isValidFetchArgs (arguments (call alice_3))"
    by (simp add: call_simps isValidFetchArgs_samples)
  have s: "settled (no_session (get (arguments (call alice_3)) ''username'')
           (get (arguments (call alice_3)) ''limit'')
           (get (arguments (call alice_3)) ''startFrom'')) =
         Inl (ErrorInstance (Some ''No active Instagram session''))"
    and t: "settled (timed_out (get (arguments (call alice_3)) ''username'')
           (get (arguments (call alice_3)) ''limit'')
           (get (arguments (call alice_3)) ''startFrom'')) =
         Inl (NotAnError (Some ''timeout''))"
    by (simp_all add: no_session_def timed_out_def)
  have s': "settled (no_session (Str ''alice'') (Num (Finite 3)) Undefined) =
     Inl (ErrorInstance (Some ''No active Instagram session''))"
    and t': "settled (timed_out (Str ''alice'') (Num (Finite 3)) Undefined) =
     Inl (NotAnError (Some ''timeout''))"
    by (simp_all add: no_session_def timed_out_def)
  from service_failure_soft_error[where fetchPosts = no_session,
      OF call_simps(1) v s disjI1[OF refl]]
    service_failure_soft_error[where fetchPosts = timed_out,
      OF call_simps(1) v t disjI2[OF refl]]
    v s' t'
  show ?thesis by (simp add: call_simps(1))
qed

text \<open>
  C6. Every message the service passes to the progress callback becomes one
  \<^verbatim>\<open>progress\<close> notification, in order: a plain string \<open>m\<close> with the params
  \<^verbatim>\<open>{message: m, progress: 0, total: 0}\<close>, a structured update with its own
  \<^verbatim>\<open>message\<close>, \<^verbatim>\<open>progress\<close>, \<^verbatim>\<open>total\<close> and \<^verbatim>\<open>keepAlive\<close>.
\<close>

theorem progress_forwarded:
  assumes "name request = ''get_instagram_posts''"
    and "isValidFetchArgs (arguments request)"
  shows "notifications (callTool fetchPosts request) =
           map (\<lambda>e. case e of
                  PlainMessage m \<Rightarrow>
                    \<lparr>notification_method = ''progress'',
                     params = \<lparr>params_message = m, params_progress = 0, params_total = 0,
                               params_keepAlive = None\<rparr>\<rparr>
                | Update u \<Rightarrow>
                    \<lparr>notification_method = ''progress'',
                     params = \<lparr>params_message = message u, params_progress = progress u,
                               params_total = total u, params_keepAlive = keepAlive u\<rparr>\<rparr>)
             (emitted (fetchPosts (get (arguments request) ''username'')
                (get (arguments request) ''limit'') (get (arguments request) ''startFrom'')))"
proof -
  have "progress_callback = (\<lambda>e. case e of
                  PlainMessage m \<Rightarrow>
                    \<lparr>notification_method = ''progress'',
                     params = \<lparr>params_message = m, params_progress = 0, params_total = 0,
                               params_keepAlive = None\<rparr>\<rparr>
                | Update u \<Rightarrow>
                    \<lparr>notification_method = ''progress'',
                     params = \<lparr>params_message = message u, params_progress = progress u,
                               params_total = total u, params_keepAlive = keepAlive u\<rparr>\<rparr>)"
    by (rule ext) (simp split: ProgressMessage.split)
  with callTool_notifications[OF assms, of fetchPosts] show ?thesis by simp
qed

theorem progress_forwarded_witness:
  "name (call alice_3) = ''get_instagram_posts'' \<and>
   isValidFetchArgs (arguments (call alice_3)) \<and>
   notifications (callTool three_posts (call alice_3)) =
     [\<lparr>notification_method = ''progress'',
       params = \<lparr>params_message = ''Loading profile'', params_progress = 0,
                 params_total = 0, params_keepAlive = None\<rparr>\<rparr>,
      \<lparr>notification_method = ''progress'',
       params = \<lparr>params_message = ''Fetched batch'', params_progress = 3,
                 params_total = 3, params_keepAlive = Some True\<rparr>\<rparr>]"
proof -
  have v: "isValidFetchArgs (arguments (call alice_3))"
    by (simp add: call_simps isValidFetchArgs_samples)
  from progress_forwarded[OF call_simps(1) v, of three_posts] v
  show ?thesis by (simp add: call_simps(1) three_posts_def)
qed

text \<open>
  C7. When \<^verbatim>\<open>startFrom\<close> is absent from the arguments, a successful call returns
  \<open>currentBatch.start = 0\<close>, and \<open>currentBatch.end\<close> and \<open>nextStartFrom\<close> are the
  number of posts returned. (The service itself is handed \<^verbatim>\<open>undefined\<close>; the default
  is the handler's, in the envelope.)
\<close>

theorem startFrom_absent:
  assumes "get (arguments request) ''startFrom'' = Undefined"
    and "outcome (callTool fetchPosts request) = Inr result"
    and "content result = [Json posts pg]"
  shows "start (currentBatch pg) = Finite 0 \<and>
         end' (currentBatch pg) = Finite (of_nat (length (list_of posts))) \<and>
         nextStartFrom pg = Finite (of_nat (length (list_of posts))) \<and>
         service_calls (callTool fetchPosts request) =
           [(get (arguments request) ''username'', get (arguments request) ''limit'',
             Undefined)]"
proof -
  note returned = callTool_posts_returned[OF assms(2,3)]
  from assms(1) have "startFrom_or_0 (get (arguments request) ''startFrom'') = Finite 0"
    by simp
  with returned
  have "pg = \<lparr>currentBatch = \<lparr>start = Finite 0,
                  end' = plus_length (Finite 0) (length (list_of posts)),
                  size' = length (list_of posts)\<rparr>,
              nextStartFrom = plus_length (Finite 0) (length (list_of posts)),
              hasMore = (length (list_of posts) = 3)\<rparr>"
    by (elim conjE) (simp only:)
  then have "pg = \<lparr>currentBatch = \<lparr>start = Finite 0,
                  end' = Finite (of_nat (length (list_of posts))),
                  size' = length (list_of posts)\<rparr>,
              nextStartFrom = Finite (of_nat (length (list_of posts))),
              hasMore = (length (list_of posts) = 3)\<rparr>"
    by (simp only: plus_length_from_0)
  moreover from returned have "name request = ''get_instagram_posts''"
    and "isValidFetchArgs (arguments request)"
    by simp_all
  then have "service_calls (callTool fetchPosts request) =
      [(get (arguments request) ''username'', get (arguments request) ''limit'',
        get (arguments request) ''startFrom'')]"
    by (rule callTool_calls)
  ultimately show ?thesis using assms(1) by simp
qed

theorem startFrom_absent_witness:
  "get (arguments (call alice_3)) ''startFrom'' = Undefined \<and>
   outcome (callTool three_posts (call alice_3)) =
     Inr \<lparr>content = [Json (Array [1, 2, 3])
            \<lparr>currentBatch = \<lparr>start = Finite 0, end' = Finite 3, size' = 3\<rparr>,
             nextStartFrom = Finite 3, hasMore = True\<rparr>], isError = None\<rparr> \<and>
   length (list_of (Array [1::nat, 2, 3])) = 3 \<and>
   service_calls (callTool three_posts (call alice_3)) =
     [(Str ''alice'', Num (Finite 3), Undefined)]"
proof -
  have s: "get (arguments (call alice_3)) ''startFrom'' = Undefined"
    by (simp add: call_simps alice_3_def)
  have c: "content \<lparr>content = xs, isError = e\<rparr> = xs" for xs :: "nat content_item list" and e
    by simp
  have "get (arguments (call alice_3)) ''username'' = Str ''alice''"
    and "get (arguments (call alice_3)) ''limit'' = Num (Finite 3)"
    by (simp_all add: call_simps alice_3_def)
  with startFrom_absent[OF s sample_outcomes(1) c]
  have "Finite 3 = Finite (of_nat (length (list_of (Array [1::nat, 2, 3]))))"
    and "service_calls (callTool three_posts (call alice_3)) =
      [(Str ''alice'', Num (Finite 3), Undefined)]"
    by simp_all
  with s sample_outcomes(1) show ?thesis by simp
qed

text \<open>
  C8. A call request whose tool name is not \<^verbatim>\<open>get_instagram_posts\<close> fails with
  \<^verbatim>\<open>MethodNotFound\<close>, whatever its arguments; the guard's verdict plays no part, the
  fetch service is not called and nothing is notified.
\<close>

theorem unknown_tool:
  assumes "name request \<noteq> ''get_instagram_posts''"
  shows "callTool fetchPosts request =
           \<lparr>service_calls = [], notifications = [],
            outcome = Inl (McpError MethodNotFound (''Unknown tool: '' @ name request))\<rparr>"
  using assms by (rule callTool_unknown)

theorem unknown_tool_witness:
  "name \<lparr>name = ''get_posts'', arguments = nameless\<rparr> \<noteq> ''get_instagram_posts'' \<and>
   \<not> isValidFetchArgs (arguments \<lparr>name = ''get_posts'', arguments = nameless\<rparr>) \<and>
   callTool three_posts \<lparr>name = ''get_posts'', arguments = nameless\<rparr> =
     \<lparr>service_calls = [], notifications = [],
      outcome = Inl (McpError MethodNotFound ''Unknown tool: get_posts'')\<rparr>"
proof -
  have n: "name \<lparr>name = ''get_posts'', arguments = nameless\<rparr> \<noteq> ''get_instagram_posts''"
    by simp
  from unknown_tool[OF n, of three_posts] n isValidFetchArgs_samples(5)
  show ?thesis by simp
qed

text \<open>
  C9, as the guard has it. Arguments that pass the guard have a string \<^verbatim>\<open>username\<close>;
  the guard does not look at its length, and the empty string passes.
\<close>

theorem accepted_username_is_string:
  "(isValidFetchArgs args \<longrightarrow> (\<exists>u. get args ''username'' = Str u)) \<and>
   isValidFetchArgs (Obj [(''username'', Str [])])"
proof
  show "isValidFetchArgs args \<longrightarrow> (\<exists>u. get args ''username'' = Str u)"
    by (simp add: isValidFetchArgs_iff)
  show "isValidFetchArgs (Obj [(''username'', Str [])])"
    by (simp add: isValidFetchArgs_def)
qed

text \<open>C9 as stated fails: the guard accepts the empty username.\<close>

theorem empty_username_counterexample:
  "isValidFetchArgs anonymous \<and> get anonymous ''username'' = Str '''' \<and>
   service_calls (callTool two_posts (call anonymous)) = [(Str '''', Undefined, Undefined)]"
proof -
  have "get anonymous ''username'' = Str ''''"
    by (simp add: anonymous_def)
  moreover have "service_calls (callTool two_posts (call anonymous)) =
      [(Str '''', Undefined, Undefined)]"
    by (simp add: callTool_calls call_simps isValidFetchArgs_samples) (simp add: anonymous_def)
  ultimately show ?thesis by (simp add: isValidFetchArgs_samples)
qed

theorem accepted_username_is_string_witness:
  "isValidFetchArgs alice_3 \<and> get alice_3 ''username'' = Str ''alice''"
proof -
  from accepted_username_is_string[of alice_3] isValidFetchArgs_samples(2)
  have "\<exists>u. get alice_3 ''username'' = Str u" by simp
  then have "get alice_3 ''username'' = Str ''alice''" by (simp add: alice_3_def)
  with isValidFetchArgs_samples(2) show ?thesis by simp
qed

text \<open>
  C10. With \<^verbatim>\<open>limit\<close> equal to \<^verbatim>\<open>"all"\<close> the flag is computed by the same test: a
  successful call returns \<open>hasMore = True\<close> exactly when the posts it returns, all
  rounds together, are three, whatever made the service stop.
\<close>

theorem hasMore_unbounded:
  assumes "get (arguments request) ''limit'' = Str ''all''"
    and "outcome (callTool fetchPosts request) = Inr result"
    and "content result = [Json posts pg]"
  shows "hasMore pg \<longleftrightarrow> length (list_of posts) = 3"
proof -
  from callTool_posts_returned[OF assms(2,3)]
  have "pg = \<lparr>currentBatch =
                  \<lparr>start = startFrom_or_0 (get (arguments request) ''startFrom''),
                   end' = plus_length (startFrom_or_0 (get (arguments request) ''startFrom''))
                            (length (list_of posts)),
                   size' = length (list_of posts)\<rparr>,
                nextStartFrom =
                  plus_length (startFrom_or_0 (get (arguments request) ''startFrom''))
                    (length (list_of posts)),
                hasMore = (length (list_of posts) = 3)\<rparr>"
    by (elim conjE)
  then show ?thesis by simp
qed

theorem hasMore_unbounded_witness:
  "get (arguments (call bob_all)) ''limit'' = Str ''all'' \<and>
   outcome (callTool seven_posts (call bob_all)) =
     Inr \<lparr>content = [Json (Array [1, 2, 3, 4, 5, 6, 7])
            \<lparr>currentBatch = \<lparr>start = Finite 0, end' = Finite 7, size' = 7\<rparr>,
             nextStartFrom = Finite 7, hasMore = False\<rparr>], isError = None\<rparr> \<and>
   length (list_of (Array [1::nat, 2, 3, 4, 5, 6, 7])) \<noteq> 3 \<and>
   outcome (callTool three_posts (call bob_all)) =
     Inr \<lparr>content = [Json (Array [1, 2, 3])
            \<lparr>currentBatch = \<lparr>start = Finite 0, end' = Finite 3, size' = 3\<rparr>,
             nextStartFrom = Finite 3, hasMore = True\<rparr>], isError = None\<rparr> \<and>
   length (list_of (Array [1::nat, 2, 3])) = 3"
proof -
  have l: "get (arguments (call bob_all)) ''limit'' = Str ''all''"
    by (simp add: call_simps bob_all_def)
  have c: "content \<lparr>content = xs, isError = e\<rparr> = xs" for xs :: "nat content_item list" and e
    by simp
  from hasMore_unbounded[OF l sample_outcomes(4) c] hasMore_unbounded[OF l sample_outcomes(5) c]
  have "length (list_of (Array [1::nat, 2, 3, 4, 5, 6, 7])) \<noteq> 3"
    and "length (list_of (Array [1::nat, 2, 3])) = 3"
    by simp_all
  with l sample_outcomes(4,5) show ?thesis by simp
qed

end
